theory Spec2Isabelle
  imports Main "HOL-Library.AList"
begin

chapter \<open>Definitions\<close>

section \<open>Sort normalisation (\<^verbatim>\<open>_normalize_sort_request.js\<close>)\<close>

subsection \<open>JavaScript values\<close>

text \<open>
  The values a sort description and the configured sort options hold. An object is
  the list of its own enumerable properties in enumeration order: the keys that are
  array indices first, in ascending order, then the other keys in the order they were
  added. \<open>getProp\<close> reads an own property (\<^verbatim>\<open>undefined\<close> when the object has none of
  that key). Arrays and functions are left out: the direction of a sort is a string or
  an object.
\<close>

datatype jsval =
  JUndefined | JNull | JBool bool | JNum int | JStr string | JObj "(string \<times> jsval) list"

type_synonym obj = "(string \<times> jsval) list"

definition getProp :: "obj \<Rightarrow> string \<Rightarrow> jsval" where
  "getProp ob k = (case map_of ob k of Some v \<Rightarrow> v | None \<Rightarrow> JUndefined)"

text \<open>
  The property names every object inherits from \<^verbatim>\<open>Object.prototype\<close>. The read
  \<^verbatim>\<open>obj[key]\<close> of such a name on an object without an own property of that name gives
  the inherited value, which is never \<^verbatim>\<open>undefined\<close>; \<open>resolvesUndefined\<close> is the test
  \<^verbatim>\<open>obj[key] === undefined\<close>.
\<close>

definition objectPrototypeKeys :: "string list" where
  "objectPrototypeKeys =
     [''constructor'', ''hasOwnProperty'', ''isPrototypeOf'', ''propertyIsEnumerable'',
      ''toLocaleString'', ''toString'', ''valueOf'', ''__proto__'', ''__defineGetter__'',
      ''__defineSetter__'', ''__lookupGetter__'', ''__lookupSetter__'']"

definition resolvesUndefined :: "obj \<Rightarrow> string \<Rightarrow> bool" where
  "resolvesUndefined ob k =
     (case map_of ob k of
        Some v \<Rightarrow> v = JUndefined
      | None \<Rightarrow> k \<notin> set objectPrototypeKeys)"

text \<open>
  A key is an array index when it is the decimal numeral, without leading zeros, of a
  number up to \<open>2\<^sup>3\<^sup>2 - 2\<close>.
\<close>

definition isDigit :: "char \<Rightarrow> bool" where
  "isDigit c = (48 \<le> (of_char c :: nat) \<and> (of_char c :: nat) \<le> 57)"

definition indexValue :: "string \<Rightarrow> int" where
  "indexValue k = foldl (\<lambda>n c. 10 * n + ((of_char c :: int) - 48)) 0 k"

definition isArrayIndex :: "string \<Rightarrow> bool" where
  "isArrayIndex k =
     (k \<noteq> [] \<and> list_all isDigit k \<and> (length k = 1 \<or> hd k \<noteq> CHR ''0'')
      \<and> indexValue k \<le> 4294967294)"

text \<open>A new array index goes before the first key that is no smaller array index.\<close>

fun insertIndex :: "string \<Rightarrow> jsval \<Rightarrow> obj \<Rightarrow> obj" where
  "insertIndex k v [] = [(k, v)]"
| "insertIndex k v (p # ps) =
     (if isArrayIndex (fst p) \<and> indexValue (fst p) < indexValue k
      then p # insertIndex k v ps
      else (k, v) # p # ps)"

text \<open>
  The assignment \<^verbatim>\<open>obj[key] = value\<close> on an object made by \<^verbatim>\<open>{}\<close>: the key \<^verbatim>\<open>__proto__\<close>
  sets the prototype and makes no own property; an existing key keeps its place; a new
  key is added in enumeration order.
\<close>

definition setProp :: "obj \<Rightarrow> string \<Rightarrow> jsval \<Rightarrow> obj" where
  "setProp ob k v =
     (if k = ''__proto__'' then ob
      else if map_of ob k \<noteq> None then AList.update k v ob
      else if isArrayIndex k then insertIndex k v ob
      else ob @ [(k, v)])"

fun truthy :: "jsval \<Rightarrow> bool" where
  "truthy JUndefined = False"
| "truthy JNull = False"
| "truthy (JBool b) = b"
| "truthy (JNum n) = (n \<noteq> 0)"
| "truthy (JStr s) = (s \<noteq> [])"
| "truthy (JObj ob) = True"

text \<open>lodash's \<^verbatim>\<open>_.isString\<close> and \<^verbatim>\<open>_.isObject\<close>, and the property read \<^verbatim>\<open>value.key\<close>.\<close>

fun isString :: "jsval \<Rightarrow> bool" where
  "isString (JStr s) = True"
| "isString v = False"

fun isObject :: "jsval \<Rightarrow> bool" where
  "isObject (JObj ob) = True"
| "isObject v = False"

fun member :: "jsval \<Rightarrow> string \<Rightarrow> jsval" where
  "member (JObj ob) k = getProp ob k"
| "member v k = JUndefined"

text \<open>
  lodash's \<^verbatim>\<open>_.defaults(dst, source, ...)\<close>: the sources are read from left to right, and
  an own property of a source is assigned when the destination's \<^verbatim>\<open>dst[key]\<close> resolves
  to \<^verbatim>\<open>undefined\<close>; so a key the destination inherits is never assigned. A source that
  is not an object contributes nothing: a falsy one is skipped, a number or a boolean
  has no own keys (a string source does not occur: \<^verbatim>\<open>normalize\<close> wraps a string before
  the call).
\<close>

fun sourceProps :: "jsval \<Rightarrow> obj" where
  "sourceProps (JObj ob) = ob"
| "sourceProps v = []"

definition assignDefault :: "obj \<Rightarrow> string \<times> jsval \<Rightarrow> obj" where
  "assignDefault dst kv =
     (if resolvesUndefined dst (fst kv) then setProp dst (fst kv) (snd kv) else dst)"

definition defaults :: "obj \<Rightarrow> jsval list \<Rightarrow> obj" where
  "defaults dst sources = foldl (\<lambda>d src. foldl assignDefault d (sourceProps src)) dst sources"

subsection \<open>Index patterns\<close>

text \<open>
  A field of the index pattern, with the properties \<^verbatim>\<open>normalize\<close> reads
  (\<open>fieldType\<close> is the field's \<^verbatim>\<open>type\<close>), and the pattern's \<^verbatim>\<open>fields.byName\<close> index.
\<close>

record indexField =
  fieldType :: jsval
  scripted :: bool
  sortable :: bool
  script :: jsval

record indexPattern =
  byName :: "string \<Rightarrow> indexField option"

subsection \<open>\<^verbatim>\<open>normalize\<close>\<close>

text \<open>
  \<^verbatim>\<open>_.keys(sortable)[0]\<close>: the first key; for an object without keys it is \<^verbatim>\<open>undefined\<close>,
  which every later use turns into the property key \<^verbatim>\<open>"undefined"\<close>.
\<close>

definition firstKey :: "obj \<Rightarrow> string" where
  "firstKey ob = (case ob of [] \<Rightarrow> ''undefined'' | kv # _ \<Rightarrow> fst kv)"

text \<open>
  The branch of a scripted, sortable field (lines 33 to 42): the new \<^verbatim>\<open>sortField\<close> and
  \<^verbatim>\<open>sortValue\<close>.
\<close>

definition scriptSort :: "indexField \<Rightarrow> jsval \<Rightarrow> string \<times> jsval" where
  "scriptSort indexField sortValue =
     (let direction = (if isString sortValue then sortValue else JUndefined);
          direction = (if isObject sortValue \<and> truthy (member sortValue ''order'')
                       then member sortValue ''order'' else direction)
      in (''_script'',
          JObj [(''script'', script indexField),
                (''type'', fieldType indexField),
                (''order'', direction)]))"

text \<open>
  The other branch (lines 44 to 61), again the new \<^verbatim>\<open>sortField\<close> and \<^verbatim>\<open>sortValue\<close>.
  \<^verbatim>\<open>getAlternativeSortingField\<close> is imported from a module that is not among the sources;
  it is a parameter, returning the name and the type of the alternative field, or
  nothing.
\<close>

definition plainSort ::
  "obj \<Rightarrow> (indexField \<Rightarrow> (string \<times> jsval) option) \<Rightarrow> string \<Rightarrow> jsval
     \<Rightarrow> indexField option \<Rightarrow> string \<times> jsval" where
  "plainSort defaultSortOptions getAlternativeSortingField sortField sortValue indexField =
     (let sortValue = (if isString sortValue then JObj [(''order'', sortValue)] else sortValue);
          sortValue = defaults [] [sortValue, JObj defaultSortOptions]
      in case indexField of
           None \<Rightarrow> (sortField, JObj sortValue)
         | Some f \<Rightarrow>
             if sortable f \<and> truthy (fieldType f) \<and> fieldType f \<noteq> JStr ''conflict''
             then (case getAlternativeSortingField f of
                     Some alt \<Rightarrow>
                       (fst alt, JObj (setProp sortValue ''unmapped_type'' (snd alt)))
                   | None \<Rightarrow>
                       (sortField, JObj (setProp sortValue ''unmapped_type'' (fieldType f))))
             else (sortField, JObj sortValue))"

text \<open>
  \<^verbatim>\<open>normalize(sortable, indexPattern)\<close>; \<open>defaultSortOptions\<close> is the configuration value
  \<^verbatim>\<open>sort:options\<close>. \<^verbatim>\<open>sortable[sortField]\<close> reads an own property, the first key being
  one. The last line is the assignment \<^verbatim>\<open>normalized[sortField] = sortValue\<close> on
  \<^verbatim>\<open>normalized = {}\<close>. No step throws on an object, so the result is a plain value.
\<close>

definition normalize ::
  "obj \<Rightarrow> (indexField \<Rightarrow> (string \<times> jsval) option) \<Rightarrow> obj \<Rightarrow> indexPattern \<Rightarrow> obj" where
  "normalize defaultSortOptions getAlternativeSortingField sortableObj indexPattern =
     (let sortField = firstKey sortableObj;
          sortValue = getProp sortableObj sortField;
          indexField = byName indexPattern sortField;
          entry = (case indexField of
                     Some f \<Rightarrow>
                       if scripted f \<and> sortable f then scriptSort f sortValue
                       else plainSort defaultSortOptions getAlternativeSortingField sortField
                              sortValue indexField
                   | None \<Rightarrow>
                       plainSort defaultSortOptions getAlternativeSortingField sortField
                         sortValue indexField)
      in setProp [] (fst entry) (snd entry))"

text \<open>
  The sort specification is one object or an array of objects;
  \<^verbatim>\<open>[].concat(sortObject)\<close> makes an array of either.
\<close>

datatype sortObject = One obj | Many "obj list"

fun concatArr :: "sortObject \<Rightarrow> obj list" where
  "concatArr (One ob) = [ob]"
| "concatArr (Many obs) = obs"

definition normalizeSortRequest ::
  "obj \<Rightarrow> (indexField \<Rightarrow> (string \<times> jsval) option) \<Rightarrow> sortObject \<Rightarrow> indexPattern \<Rightarrow> obj list" where
  "normalizeSortRequest defaultSortOptions getAlternativeSortingField sortObject indexPattern =
     map (\<lambda>sortableObj.
            normalize defaultSortOptions getAlternativeSortingField sortableObj indexPattern)
       (concatArr sortObject)"

section \<open>The Elasticsearch proxy plugin: guards of the kibana index route\<close>

text \<open>
  The plugin's \<^verbatim>\<open>init\<close> registers one proxy route for the methods PUT, POST and DELETE
  on the path of the kibana index, with two prerequisites (\<^verbatim>\<open>pre\<close>):
  \<^verbatim>\<open>noDirectIndex\<close> and \<^verbatim>\<open>noBulkCheck\<close>, in this order. A prerequisite either answers
  the request itself or lets it continue; the request reaches the proxy handler only
  when every prerequisite continued. \<^verbatim>\<open>createKibiProxy\<close>, which registers the route, is
  not among the sources; it is taken to hand the \<^verbatim>\<open>pre\<close> list to the server as the
  route's prerequisites, as its call says.
\<close>

subsection \<open>Strings\<close>

text \<open>
  lodash's \<^verbatim>\<open>trim(string)\<close> removes whitespace from both ends, and
  \<^verbatim>\<open>trimRight(string, chars)\<close> removes from the right end every character that occurs in
  \<^verbatim>\<open>chars\<close>. A request path is a string of single-byte characters here; the
  whitespace characters of that range are the codes 9 to 13, 32 and 160.
\<close>

definition isSpace :: "char \<Rightarrow> bool" where
  "isSpace c = (let n = (of_char c :: nat) in (9 \<le> n \<and> n \<le> 13) \<or> n = 32 \<or> n = 160)"

definition trimLeftWith :: "(char \<Rightarrow> bool) \<Rightarrow> string \<Rightarrow> string" where
  "trimLeftWith p s = dropWhile p s"

definition trimRightWith :: "(char \<Rightarrow> bool) \<Rightarrow> string \<Rightarrow> string" where
  "trimRightWith p s = rev (dropWhile p (rev s))"

definition trim :: "string \<Rightarrow> string" where
  "trim s = trimRightWith isSpace (trimLeftWith isSpace s)"

definition trimRight :: "string \<Rightarrow> string \<Rightarrow> string" where
  "trimRight s chars = trimRightWith (\<lambda>c. c \<in> set chars) s"

text \<open>The regular expression \<^verbatim>\<open>/\/_bulk/\<close> tests for a substring.\<close>

fun containsStr :: "string \<Rightarrow> string \<Rightarrow> bool" where
  "containsStr pat [] = (pat = [])"
| "containsStr pat (c # cs) = (take (length pat) (c # cs) = pat \<or> containsStr pat cs)"

subsection \<open>Requests and replies\<close>

datatype httpMethod = GET | PUT | POST | DELETE

record request =
  reqMethod :: httpMethod
  path :: string

text \<open>
  What a prerequisite does with \<^verbatim>\<open>reply\<close>: \<^verbatim>\<open>reply.continue()\<close>, or a response of its
  own, which is either a Boom error (status code and message) or a payload with a
  status code set by \<^verbatim>\<open>.code(n).takeover()\<close>.
\<close>

datatype response =
  BoomError nat string
| Payload nat string

datatype reply = Continue | Respond response

text \<open>\<^verbatim>\<open>methodNotAllowed\<close> of the boom library: the error with status 405.\<close>

definition methodNotAllowed :: "string \<Rightarrow> response" where
  "methodNotAllowed msg = BoomError 405 msg"

subsection \<open>The two prerequisites\<close>

definition noBulkCheck :: "request \<Rightarrow> reply" where
  "noBulkCheck req =
     (if containsStr ''/_bulk'' (path req)
      then Respond (Payload 400 ''You can not send _bulk requests to this interface.'')
      else Continue)"

text \<open>
  \<^verbatim>\<open>createPath\<close> is imported from \<^verbatim>\<open>./lib/create_kibana_proxy\<close>, which is not among
  the sources; it is a parameter. \<^verbatim>\<open>kibanaIndex\<close> is the configuration value
  \<^verbatim>\<open>kibana.index\<close>.
\<close>

definition noDirectIndex :: "(string \<Rightarrow> string \<Rightarrow> string) \<Rightarrow> string \<Rightarrow> request \<Rightarrow> reply" where
  "noDirectIndex createPath kibanaIndex req =
     (let requestPath = trimRight (trim (path req)) ''/'';
          matchPath = createPath ''/elasticsearch'' kibanaIndex
      in if requestPath = matchPath
         then Respond (methodNotAllowed
                ''You cannot modify the primary kibana index through this interface.'')
         else Continue)"

subsection \<open>The route\<close>

text \<open>
  The outcome of a request on a route: the response of the first prerequisite that
  answered, or the request forwarded to the proxy handler.
\<close>

datatype outcome = Rejected response | Forwarded request

fun runPre :: "(request \<Rightarrow> reply) list \<Rightarrow> request \<Rightarrow> outcome" where
  "runPre [] req = Forwarded req"
| "runPre (p # ps) req =
     (case p req of Respond r \<Rightarrow> Rejected r | Continue \<Rightarrow> runPre ps req)"

record route =
  methods :: "httpMethod list"
  pre :: "(request \<Rightarrow> reply) list"

definition kibanaIndexRoute :: "(string \<Rightarrow> string \<Rightarrow> string) \<Rightarrow> string \<Rightarrow> route" where
  "kibanaIndexRoute createPath kibanaIndex =
     \<lparr> methods = [PUT, POST, DELETE],
       pre = [noDirectIndex createPath kibanaIndex, noBulkCheck] \<rparr>"

text \<open>A route serves a request of one of its methods; \<open>None\<close> for any other method.\<close>

definition serve :: "route \<Rightarrow> request \<Rightarrow> outcome option" where
  "serve r req =
     (if reqMethod req \<in> set (methods r) then Some (runPre (pre r) req) else None)"

section \<open>The query executor and the join planner\<close>

text \<open>
  The query classes (\<^verbatim>\<open>queries/mysql_query\<close>, \<^verbatim>\<open>queries/jdbc_query\<close>) and the join
  module (\<^verbatim>\<open>lib/siren_join\<close>) are used by the tests and by the plugin, but their code
  is not among the sources. The definitions of this section follow the design
  document instead, sentence by sentence.
\<close>

subsection \<open>Data model\<close>

text \<open>
  Modelled from the spec: the data model of the absent query classes. A binding is one
  row, a mapping from field name to scalar value; a ResultSet is the ordered sequence
  of its bindings.
\<close>

type_synonym binding = "(string \<times> string) list"

record resultSet =
  bindings :: "binding list"

definition emptyResultSet :: resultSet where
  "emptyResultSet = \<lparr>bindings = []\<rparr>"

text \<open>
  Modelled from the spec: DataSourceConfig of the absent configuration layer, with the
  identity that errors are attributed to, the connection identity that enters the
  cache key, and the caching flag.
\<close>

record dataSourceConfig =
  datasourceId :: string
  connectionIdentity :: string
  cacheEnabled :: bool

text \<open>Modelled from the spec: QuerySpec, the description of one query of the absent classes.\<close>

record querySpec =
  activationQuery :: string
  resultQuery :: string
  datasource :: dataSourceConfig

text \<open>
  Modelled from the spec: ExecutionContext, the credentials and the variables of one
  invocation of the absent \<^verbatim>\<open>fetchResults\<close>; the forced-refresh flag is an argument
  of the call.
\<close>

record executionContext =
  username :: string
  variables :: "(string \<times> string) list"

text \<open>
  Modelled from the spec: the error kinds of the absent executor, each with the
  identity of the backend and the underlying cause.
\<close>

datatype error =
  ConnectionError string string
| ExecutionError string string

type_synonym cacheKey = string

text \<open>
  Modelled from the spec: the capabilities of one backend variant, absent from the
  sources: the evaluation of a non-empty activation query, the population of the
  query template, the cache key function, \<^verbatim>\<open>initialize\<close> (the cause when it fails),
  \<^verbatim>\<open>executeRaw\<close> (the cause when the backend reports a failure) and the normalisation
  of a raw response.
\<close>

record 'raw backend =
  resolveActivation :: "string \<Rightarrow> executionContext \<Rightarrow> bool"
  populateParameters :: "string \<Rightarrow> executionContext \<Rightarrow> string"
  generateCacheKey :: "string \<Rightarrow> string \<Rightarrow> bool \<Rightarrow> string \<Rightarrow> string \<Rightarrow> cacheKey"
  initialize :: "string option"
  executeRaw :: "string \<Rightarrow> string + 'raw"
  normalizeRaw :: "'raw \<Rightarrow> resultSet"

text \<open>
  Modelled from the spec: what the absent executor holds between calls, the CacheStore
  and whether the backend is initialized, together with the two logs a test inspects:
  the arguments of every call of \<^verbatim>\<open>generateCacheKey\<close> and the queries handed to the
  backend execution hook.
\<close>

record executorState =
  cache :: "cacheKey \<Rightarrow> resultSet option"
  initialized :: bool
  keyCalls :: "(string \<times> string \<times> bool \<times> string \<times> string) list"
  backendCalls :: "string list"

subsection \<open>\<^verbatim>\<open>fetchResults\<close>\<close>

text \<open>
  Modelled from the spec: step 1 of the absent \<^verbatim>\<open>fetchResults\<close>. The activation query
  gates whether the query runs at all; an empty one means always.
\<close>

definition activated :: "'raw backend \<Rightarrow> querySpec \<Rightarrow> executionContext \<Rightarrow> bool" where
  "activated be qs ctx =
     (activationQuery qs = [] \<or> resolveActivation be (activationQuery qs) ctx)"

text \<open>
  Modelled from the spec: "call \<^verbatim>\<open>initialize()\<close> if not already initialized" of the absent
  \<^verbatim>\<open>fetchResults\<close>; a failure is a ConnectionError.
\<close>

definition ensureInitialized ::
  "'raw backend \<Rightarrow> dataSourceConfig \<Rightarrow> executorState \<Rightarrow> error + executorState" where
  "ensureInitialized be ds st =
     (if initialized st then Inr st
      else case initialize be of
             Some cause \<Rightarrow> Inl (ConnectionError (datasourceId ds) cause)
           | None \<Rightarrow> Inr (st\<lparr>initialized := True\<rparr>))"

text \<open>
  Modelled from the spec: the absent \<^verbatim>\<open>fetchResults(executionContext, forceRefresh,
  variableBinding)\<close>, its five steps in order. (1) An activation query that does not
  hold gives the empty ResultSet without touching cache or backend. (2) The result
  query's parameters are populated. (3) The cache key is computed. (4) With caching
  enabled and no forced refresh the CacheStore is consulted, and a hit is returned
  unchanged. (5) Otherwise the backend is initialized if it is not yet, the populated
  query is executed, the raw response is normalised, stored under the key (if caching
  is enabled) and returned. A backend execution error propagates as an ExecutionError
  with the backend's identity and the cause, and does not populate the cache.
\<close>

definition fetchResults ::
  "'raw backend \<Rightarrow> querySpec \<Rightarrow> executionContext \<Rightarrow> bool \<Rightarrow> string \<Rightarrow> executorState
     \<Rightarrow> (error + resultSet) \<times> executorState" where
  "fetchResults be qs ctx forceRefresh variableBinding st =
     (if \<not> activated be qs ctx then (Inr emptyResultSet, st)
      else
        let ds = datasource qs;
            query = populateParameters be (resultQuery qs) ctx;
            key = generateCacheKey be (connectionIdentity ds) query forceRefresh
                    variableBinding (username ctx);
            st1 = st\<lparr>keyCalls := keyCalls st @
                    [(connectionIdentity ds, query, forceRefresh, variableBinding, username ctx)]\<rparr>
        in case (if cacheEnabled ds \<and> \<not> forceRefresh then cache st1 key else None) of
             Some cached \<Rightarrow> (Inr cached, st1)
           | None \<Rightarrow>
               (case ensureInitialized be ds st1 of
                  Inl e \<Rightarrow> (Inl e, st1)
                | Inr st2 \<Rightarrow>
                    let st3 = st2\<lparr>backendCalls := backendCalls st2 @ [query]\<rparr>
                    in (case executeRaw be query of
                          Inl cause \<Rightarrow> (Inl (ExecutionError (datasourceId ds) cause), st3)
                        | Inr raw \<Rightarrow>
                            (let rs = normalizeRaw be raw
                             in (Inr rs,
                                 if cacheEnabled ds
                                 then st3\<lparr>cache := (cache st3)(key \<mapsto> rs)\<rparr>
                                 else st3)))))"

subsection \<open>The join planner, sequence mode\<close>

text \<open>
  Modelled from the spec: sequence mode of the absent JoinSequence planner. The
  QuerySpecs of the relation are executed in declared order, each on the bindings the
  previous one produced; the planner returns an empty result the moment a step yields
  an empty ResultSet, and an error aborts the steps after it. \<open>exec\<close> is the executor of
  one QuerySpec, acting on its state. Beside the result the planner gives the trace of
  its run: the executors it invoked, in order, each with what it yielded.
\<close>

fun sequenceJoin ::
  "(querySpec \<Rightarrow> resultSet \<Rightarrow> 's \<Rightarrow> (error + resultSet) \<times> 's) \<Rightarrow> querySpec list \<Rightarrow> resultSet \<Rightarrow> 's
     \<Rightarrow> (error + resultSet) \<times> (querySpec \<times> (error + resultSet)) list \<times> 's" where
  "sequenceJoin exec [] prev st = (Inr prev, [], st)"
| "sequenceJoin exec (q # qs) prev st =
     (case exec q prev st of
        (Inl e, st1) \<Rightarrow> (Inl e, [(q, Inl e)], st1)
      | (Inr rs, st1) \<Rightarrow>
          if bindings rs = [] then (Inr emptyResultSet, [(q, Inr rs)], st1)
          else (case sequenceJoin exec qs rs st1 of
                  (res, trace, st2) \<Rightarrow> (res, (q, Inr rs) # trace, st2)))"

subsection \<open>The configuration of the MysqlQuery test\<close>

text \<open>
  The test of \<^verbatim>\<open>MysqlQuery\<close> configures an empty activation query, the result query
  \<^verbatim>\<open>select * from x\<close>, the host \<^verbatim>\<open>localhost\<close> and the database \<^verbatim>\<open>mydb\<close> with caching
  enabled (the connection identity it expects is \<^verbatim>\<open>localhostmydb\<close>), and calls
  \<^verbatim>\<open>fetchResults\<close> for the user \<^verbatim>\<open>fred\<close>.
\<close>

definition testQuery :: querySpec where
  "testQuery =
     \<lparr> activationQuery = [],
       resultQuery = ''select * from x'',
       datasource = \<lparr> datasourceId = ''mysql'', connectionIdentity = ''localhostmydb'',
                      cacheEnabled = True \<rparr> \<rparr>"

definition testContext :: executionContext where
  "testContext = \<lparr> username = ''fred'', variables = [] \<rparr>"

text \<open>
  The test replaces the execution hook by a stub; \<open>stubBackend\<close> is a backend around
  such a stub, whose raw response is the list of rows itself. The test fixes neither
  the identity of the datasource nor the key function; both are chosen here.
\<close>

definition stubBackend :: "(string \<Rightarrow> string + binding list) \<Rightarrow> (binding list) backend" where
  "stubBackend stub =
     \<lparr> resolveActivation = (\<lambda>q ctx. True),
       populateParameters = (\<lambda>q ctx. q),
       generateCacheKey = (\<lambda>c q f v u. c @ ''|'' @ q @ ''|'' @ (if f then ''1'' else ''0'')
                                          @ ''|'' @ v @ ''|'' @ u),
       initialize = None,
       executeRaw = stub,
       normalizeRaw = (\<lambda>rows. \<lparr>bindings = rows\<rparr>) \<rparr>"

definition coldState :: executorState where
  "coldState = \<lparr> cache = Map.empty, initialized = False, keyCalls = [], backendCalls = [] \<rparr>"

text \<open>
  An executor for a run of the planner: its state is the log of the result queries it
  was invoked with, and it yields no binding for \<^verbatim>\<open>select none\<close> and one binding for
  any other query.
\<close>

definition logExec ::
  "querySpec \<Rightarrow> resultSet \<Rightarrow> string list \<Rightarrow> (error + resultSet) \<times> string list" where
  "logExec q prev log =
     (if resultQuery q = ''select none'' then Inr emptyResultSet
      else Inr \<lparr>bindings = [[(''id'', ''1'')]]\<rparr>,
      log @ [resultQuery q])"

chapter \<open>Properties\<close>

section \<open>Sort normalisation\<close>

subsection \<open>Reading and writing properties\<close>

lemma map_of_insertIndex:
  "k \<notin> fst ` set ob \<Longrightarrow> map_of (insertIndex k v ob) = (map_of ob)(k \<mapsto> v)"
  by (induction ob) (auto simp: fun_eq_iff)

lemma map_of_snoc:
  "map_of ob k = None \<Longrightarrow> map_of (ob @ [(k, v)]) = (map_of ob)(k \<mapsto> v)"
  by (auto simp: fun_eq_iff map_add_def split: option.splits)

lemma map_of_setProp:
  "map_of (setProp ob k v) = (if k = ''__proto__'' then map_of ob else (map_of ob)(k \<mapsto> v))"
proof (cases "map_of ob k")
  case None
  then have "k \<notin> fst ` set ob"
    by (simp add: map_of_eq_None_iff)
  with None show ?thesis
    by (simp add: setProp_def map_of_insertIndex map_of_snoc del: map_of_append)
next
  case (Some w)
  then show ?thesis
    by (simp add: setProp_def update_conv')
qed

lemma getProp_setProp:
  "getProp (setProp ob k v) k' =
     (if k' = k \<and> k \<noteq> ''__proto__'' then v else getProp ob k')"
  by (simp add: getProp_def map_of_setProp)

lemma setProp_empty: "k \<noteq> ''__proto__'' \<Longrightarrow> setProp [] k v = [(k, v)]"
  by (simp add: setProp_def)

lemma proto_inherited: "''__proto__'' \<in> set objectPrototypeKeys"
  by (simp add: objectPrototypeKeys_def)

lemma resolvesUndefined_own:
  "k \<notin> set objectPrototypeKeys \<Longrightarrow> resolvesUndefined ob k = (getProp ob k = JUndefined)"
  by (simp add: resolvesUndefined_def getProp_def split: option.splits)

lemma getProp_absent: "k \<notin> fst ` set ob \<Longrightarrow> getProp ob k = JUndefined"
  by (simp add: getProp_def map_of_eq_None_iff [THEN iffD2])

lemma getProp_Cons: "getProp ((k0, v0) # ob) k = (if k = k0 then v0 else getProp ob k)"
  by (simp add: getProp_def)

lemma getProp_assignDefault:
  assumes "k \<notin> set objectPrototypeKeys"
  shows "getProp (assignDefault dst (k0, v0)) k =
           (if k = k0 \<and> getProp dst k0 = JUndefined then v0 else getProp dst k)"
proof (cases "k = k0")
  case True
  with assms have "k0 \<noteq> ''__proto__''"
    using proto_inherited by auto
  with True assms show ?thesis
    by (simp add: assignDefault_def resolvesUndefined_own getProp_setProp)
next
  case False
  then show ?thesis
    by (simp add: assignDefault_def getProp_setProp)
qed

lemma getProp_foldl_assignDefault:
  "distinct (map fst src) \<Longrightarrow> k \<notin> set objectPrototypeKeys \<Longrightarrow>
   getProp (foldl assignDefault dst src) k =
     (if getProp dst k \<noteq> JUndefined then getProp dst k else getProp src k)"
proof (induction src arbitrary: dst)
  case Nil
  then show ?case by (simp add: getProp_def)
next
  case (Cons kv src)
  obtain k0 v0 where kv: "kv = (k0, v0)" by (cases kv)
  from Cons.prems kv have fresh: "k0 \<notin> fst ` set src" and dist: "distinct (map fst src)"
    by auto
  have step: "getProp (assignDefault dst kv) k =
      (if k = k0 \<and> getProp dst k0 = JUndefined then v0 else getProp dst k)"
    unfolding kv by (rule getProp_assignDefault [OF Cons.prems(2)])
  have rest: "k = k0 \<Longrightarrow> getProp src k = JUndefined"
    using fresh by (simp add: getProp_absent)
  have hd: "getProp (kv # src) k = (if k = k0 then v0 else getProp src k)"
    by (simp add: kv getProp_Cons)
  have "getProp (foldl assignDefault dst (kv # src)) k =
          getProp (foldl assignDefault (assignDefault dst kv) src) k"
    by simp
  also have "\<dots> = (if getProp (assignDefault dst kv) k \<noteq> JUndefined
                     then getProp (assignDefault dst kv) k else getProp src k)"
    by (rule Cons.IH [OF dist Cons.prems(2)])
  also have "\<dots> = (if getProp dst k \<noteq> JUndefined then getProp dst k
                     else getProp (kv # src) k)"
    unfolding step hd using rest by auto
  finally show ?case .
qed

lemma defaults_order_first:
  "defaults [] [JObj [(''order'', JStr d)], JObj dflt] =
     foldl assignDefault [(''order'', JStr d)] dflt"
proof -
  have "foldl assignDefault [] [(''order'', JStr d)] = [(''order'', JStr d)]"
    by (simp add: assignDefault_def resolvesUndefined_def objectPrototypeKeys_def
          setProp_def isArrayIndex_def isDigit_def)
  then show ?thesis
    unfolding defaults_def by simp
qed

lemma getProp_defaults_order:
  assumes "distinct (map fst dflt)"
  shows "getProp (defaults [] [JObj [(''order'', JStr d)], JObj dflt]) ''order'' = JStr d"
    and "k \<notin> set objectPrototypeKeys \<Longrightarrow> k \<noteq> ''order'' \<Longrightarrow>
         getProp (defaults [] [JObj [(''order'', JStr d)], JObj dflt]) k = getProp dflt k"
proof -
  have o: "''order'' \<notin> set objectPrototypeKeys"
    by (simp add: objectPrototypeKeys_def)
  show "getProp (defaults [] [JObj [(''order'', JStr d)], JObj dflt]) ''order'' = JStr d"
    by (simp add: defaults_order_first getProp_foldl_assignDefault [OF assms o] getProp_Cons)
  show "getProp (defaults [] [JObj [(''order'', JStr d)], JObj dflt]) k = getProp dflt k"
    if "k \<notin> set objectPrototypeKeys" "k \<noteq> ''order''"
    using that
    by (simp add: defaults_order_first getProp_foldl_assignDefault [OF assms] getProp_Cons)
       (simp add: getProp_def)
qed

subsection \<open>The entries of a normalised sort request\<close>

text \<open>What one entry is, branch by branch of \<^verbatim>\<open>normalize\<close>.\<close>

lemma scriptSort_shape:
  "\<exists>dir. scriptSort f sv =
     (''_script'', JObj [(''script'', script f), (''type'', fieldType f), (''order'', dir)])
     \<and> (\<forall>d. sv = JStr d \<longrightarrow> dir = JStr d)
     \<and> (\<forall>ob. sv = JObj ob \<and> truthy (getProp ob ''order'') \<longrightarrow> dir = getProp ob ''order'')"
  by (cases sv) (auto simp: scriptSort_def)

lemma plainSort_untyped:
  assumes "distinct (map fst dflt)"
    and "case fld of None \<Rightarrow> True
         | Some f \<Rightarrow> \<not> (sortable f \<and> truthy (fieldType f) \<and> fieldType f \<noteq> JStr ''conflict'')"
  shows "\<exists>v. plainSort dflt alt sortField (JStr d) fld = (sortField, JObj v)
           \<and> getProp v ''order'' = JStr d
           \<and> (\<forall>k. k \<notin> set objectPrototypeKeys \<and> k \<noteq> ''order''
                  \<longrightarrow> getProp v k = getProp dflt k)"
  using assms(2)
  by (cases fld) (auto simp: plainSort_def getProp_defaults_order [OF assms(1)])

lemma plainSort_typed:
  assumes "distinct (map fst dflt)"
    and "sortable f" "truthy (fieldType f)" "fieldType f \<noteq> JStr ''conflict''"
  shows "\<exists>key v. plainSort dflt alt sortField (JStr d) (Some f) = (key, JObj v)
           \<and> getProp v ''order'' = JStr d
           \<and> (key, getProp v ''unmapped_type'') =
               (case alt f of Some a \<Rightarrow> a | None \<Rightarrow> (sortField, fieldType f))
           \<and> (\<forall>k. k \<notin> set objectPrototypeKeys \<and> k \<noteq> ''order'' \<and> k \<noteq> ''unmapped_type''
                  \<longrightarrow> getProp v k = getProp dflt k)"
  using assms(2-4)
  by (cases "alt f")
     (auto simp: plainSort_def getProp_setProp getProp_defaults_order [OF assms(1)])

lemma normalize_entry:
  assumes dist: "distinct (map fst defaultSortOptions)"
  shows "case byName indexPattern (firstKey s) of
               Some f \<Rightarrow>
                 if scripted f \<and> sortable f
                 then \<exists>dir. normalize defaultSortOptions alt s indexPattern = [(''_script'', JObj [(''script'', script f),
                                                      (''type'', fieldType f), (''order'', dir)])]
                        \<and> (\<forall>d. getProp s (firstKey s) = JStr d \<longrightarrow> dir = JStr d)
                        \<and> (\<forall>ob. getProp s (firstKey s) = JObj ob \<and> truthy (getProp ob ''order'')
                               \<longrightarrow> dir = getProp ob ''order'')
                 else \<forall>d. getProp s (firstKey s) = JStr d \<longrightarrow>
                        (\<exists>key v. (key \<noteq> ''__proto__'' \<longrightarrow> normalize defaultSortOptions alt s indexPattern = [(key, JObj v)])
                           \<and> getProp v ''order'' = JStr d
                           \<and> (if sortable f \<and> truthy (fieldType f)
                                  \<and> fieldType f \<noteq> JStr ''conflict''
                               then (key, getProp v ''unmapped_type'') =
                                      (case alt f of Some a \<Rightarrow> a
                                       | None \<Rightarrow> ((firstKey s), fieldType f))
                                    \<and> (\<forall>k. k \<notin> set objectPrototypeKeys \<and> k \<noteq> ''order''
                                             \<and> k \<noteq> ''unmapped_type''
                                           \<longrightarrow> getProp v k = getProp defaultSortOptions k)
                               else key = (firstKey s)
                                    \<and> (\<forall>k. k \<notin> set objectPrototypeKeys \<and> k \<noteq> ''order''
                                           \<longrightarrow> getProp v k = getProp defaultSortOptions k)))
             | None \<Rightarrow>
                 \<forall>d. getProp s (firstKey s) = JStr d \<longrightarrow>
                   (\<exists>v. ((firstKey s) \<noteq> ''__proto__'' \<longrightarrow> normalize defaultSortOptions alt s indexPattern = [((firstKey s), JObj v)])
                      \<and> getProp v ''order'' = JStr d
                      \<and> (\<forall>k. k \<notin> set objectPrototypeKeys \<and> k \<noteq> ''order''
                             \<longrightarrow> getProp v k = getProp defaultSortOptions k))"
proof (cases "byName indexPattern (firstKey s)")
  case None
  have n: "normalize defaultSortOptions alt s indexPattern =
             setProp []
               (fst (plainSort defaultSortOptions alt (firstKey s) (getProp s (firstKey s)) None))
               (snd (plainSort defaultSortOptions alt (firstKey s) (getProp s (firstKey s)) None))"
    by (simp add: normalize_def None Let_def)
  have "\<exists>v. (firstKey s \<noteq> ''__proto__''
               \<longrightarrow> normalize defaultSortOptions alt s indexPattern = [(firstKey s, JObj v)])
            \<and> getProp v ''order'' = JStr d
            \<and> (\<forall>k. k \<notin> set objectPrototypeKeys \<and> k \<noteq> ''order''
                   \<longrightarrow> getProp v k = getProp defaultSortOptions k)"
    if sv: "getProp s (firstKey s) = JStr d" for d
  proof -
    from plainSort_untyped [OF dist, of None alt "firstKey s" d]
    obtain v where
      p: "plainSort defaultSortOptions alt (firstKey s) (JStr d) None = (firstKey s, JObj v)"
      and rest: "getProp v ''order'' = JStr d"
        "\<forall>k. k \<notin> set objectPrototypeKeys \<and> k \<noteq> ''order''
             \<longrightarrow> getProp v k = getProp defaultSortOptions k"
      by auto
    have "firstKey s \<noteq> ''__proto__''
            \<longrightarrow> normalize defaultSortOptions alt s indexPattern = [(firstKey s, JObj v)]"
      by (simp add: n sv p setProp_empty)
    with rest show ?thesis by blast
  qed
  then show ?thesis
    by (simp add: None)
next
  case (Some f)
  show ?thesis
  proof (cases "scripted f \<and> sortable f")
    case True
    have n: "normalize defaultSortOptions alt s indexPattern =
               setProp [] (fst (scriptSort f (getProp s (firstKey s))))
                 (snd (scriptSort f (getProp s (firstKey s))))"
      using True by (simp add: normalize_def Some Let_def)
    from scriptSort_shape [of f "getProp s (firstKey s)"]
    obtain dir where
      p: "scriptSort f (getProp s (firstKey s)) =
            (''_script'', JObj [(''script'', script f), (''type'', fieldType f), (''order'', dir)])"
      and rest: "\<forall>d. getProp s (firstKey s) = JStr d \<longrightarrow> dir = JStr d"
        "\<forall>ob. getProp s (firstKey s) = JObj ob \<and> truthy (getProp ob ''order'')
              \<longrightarrow> dir = getProp ob ''order''"
      by auto
    have "normalize defaultSortOptions alt s indexPattern =
            [(''_script'', JObj [(''script'', script f), (''type'', fieldType f), (''order'', dir)])]"
      by (simp add: n p setProp_empty)
    with rest have "\<exists>dir. normalize defaultSortOptions alt s indexPattern =
            [(''_script'', JObj [(''script'', script f), (''type'', fieldType f), (''order'', dir)])]
          \<and> (\<forall>d. getProp s (firstKey s) = JStr d \<longrightarrow> dir = JStr d)
          \<and> (\<forall>ob. getProp s (firstKey s) = JObj ob \<and> truthy (getProp ob ''order'')
                 \<longrightarrow> dir = getProp ob ''order'')"
      by blast
    with True show ?thesis
      by (simp add: Some)
  next
    case False
    have n: "normalize defaultSortOptions alt s indexPattern =
               setProp []
                 (fst (plainSort defaultSortOptions alt (firstKey s) (getProp s (firstKey s))
                         (Some f)))
                 (snd (plainSort defaultSortOptions alt (firstKey s) (getProp s (firstKey s))
                         (Some f)))"
      using False by (auto simp add: normalize_def Some Let_def)
    show ?thesis
    proof (cases "sortable f \<and> truthy (fieldType f) \<and> fieldType f \<noteq> JStr ''conflict''")
      case True
      have "\<exists>key v. (key \<noteq> ''__proto__''
                 \<longrightarrow> normalize defaultSortOptions alt s indexPattern = [(key, JObj v)])
              \<and> getProp v ''order'' = JStr d
              \<and> (key, getProp v ''unmapped_type'') =
                  (case alt f of Some a \<Rightarrow> a | None \<Rightarrow> (firstKey s, fieldType f))
              \<and> (\<forall>k. k \<notin> set objectPrototypeKeys \<and> k \<noteq> ''order'' \<and> k \<noteq> ''unmapped_type''
                     \<longrightarrow> getProp v k = getProp defaultSortOptions k)"
        if sv: "getProp s (firstKey s) = JStr d" for d
      proof -
        from True plainSort_typed [OF dist, of f alt "firstKey s" d]
        obtain key v where
          p: "plainSort defaultSortOptions alt (firstKey s) (JStr d) (Some f) = (key, JObj v)"
          and rest: "getProp v ''order'' = JStr d"
            "(key, getProp v ''unmapped_type'') =
               (case alt f of Some a \<Rightarrow> a | None \<Rightarrow> (firstKey s, fieldType f))"
            "\<forall>k. k \<notin> set objectPrototypeKeys \<and> k \<noteq> ''order'' \<and> k \<noteq> ''unmapped_type''
                 \<longrightarrow> getProp v k = getProp defaultSortOptions k"
          by auto
        have "key \<noteq> ''__proto__''
                \<longrightarrow> normalize defaultSortOptions alt s indexPattern = [(key, JObj v)]"
          by (simp add: n sv p setProp_empty)
        with rest show ?thesis by blast
      qed
      with True False show ?thesis
        by (simp add: Some)
    next
      case typed: False
      then have u: "case Some f of None \<Rightarrow> True
         | Some f \<Rightarrow> \<not> (sortable f \<and> truthy (fieldType f) \<and> fieldType f \<noteq> JStr ''conflict'')"
        by simp
      have "\<exists>key v. (key \<noteq> ''__proto__''
                 \<longrightarrow> normalize defaultSortOptions alt s indexPattern = [(key, JObj v)])
              \<and> getProp v ''order'' = JStr d
              \<and> key = firstKey s
              \<and> (\<forall>k. k \<notin> set objectPrototypeKeys \<and> k \<noteq> ''order''
                     \<longrightarrow> getProp v k = getProp defaultSortOptions k)"
        if sv: "getProp s (firstKey s) = JStr d" for d
      proof -
        from plainSort_untyped [OF dist u, of alt "firstKey s" d]
        obtain v where
          p: "plainSort defaultSortOptions alt (firstKey s) (JStr d) (Some f)
                = (firstKey s, JObj v)"
          and rest: "getProp v ''order'' = JStr d"
            "\<forall>k. k \<notin> set objectPrototypeKeys \<and> k \<noteq> ''order''
                 \<longrightarrow> getProp v k = getProp defaultSortOptions k"
          by auto
        have "firstKey s \<noteq> ''__proto__''
                \<longrightarrow> normalize defaultSortOptions alt s indexPattern = [(firstKey s, JObj v)]"
          by (simp add: n sv p setProp_empty)
        with rest show ?thesis by blast
      qed
      with typed False show ?thesis
        by (auto simp add: Some)
    qed
  qed
qed

text \<open>The definitions a concrete sort request is evaluated with.\<close>

lemmas sort_eval =
  normalizeSortRequest_def normalize_def firstKey_def getProp_def plainSort_def scriptSort_def
  defaults_def assignDefault_def setProp_def resolvesUndefined_def objectPrototypeKeys_def
  isArrayIndex_def isDigit_def Let_def

text \<open>
  C10, as stated, fails where it says that a string direction \<open>d\<close> of a field that is
  not scripted becomes \<^verbatim>\<open>{order: d}\<close> merged with the configured default sort options.
  With the default options \<^verbatim>\<open>{unmapped_type: "boolean"}\<close> and a sortable field \<^verbatim>\<open>age\<close> of
  type \<^verbatim>\<open>number\<close>, the entry for \<^verbatim>\<open>{age: "desc"}\<close> carries \<^verbatim>\<open>unmapped_type: "number"\<close>, while
  the merge with the default options carries \<^verbatim>\<open>unmapped_type: "boolean"\<close>.
\<close>

theorem normalizeSortRequest_default_merge_counterexample:
  "normalizeSortRequest [(''unmapped_type'', JStr ''boolean'')] (\<lambda>f. None)
       (One [(''age'', JStr ''desc'')])
       \<lparr>byName = [''age'' \<mapsto> \<lparr>fieldType = JStr ''number'', scripted = False,
                                sortable = True, script = JUndefined\<rparr>]\<rparr>
     = [[(''age'', JObj [(''order'', JStr ''desc''), (''unmapped_type'', JStr ''number'')])]]
   \<and> defaults [] [JObj [(''order'', JStr ''desc'')], JObj [(''unmapped_type'', JStr ''boolean'')]]
     = [(''order'', JStr ''desc''), (''unmapped_type'', JStr ''boolean'')]
   \<and> getProp [(''order'', JStr ''desc''), (''unmapped_type'', JStr ''number'')] ''unmapped_type''
     \<noteq> getProp [(''unmapped_type'', JStr ''boolean'')] ''unmapped_type''"
  by (simp add: sort_eval)

text \<open>
  C10, amended. \<^verbatim>\<open>normalizeSortRequest\<close> returns one entry per element of
  \<^verbatim>\<open>[].concat(sortObject)\<close>. For a field that is scripted and sortable the entry is
  \<^verbatim>\<open>{_script: {script, type, order}}\<close> with the field's script and type, the order being
  the string direction, or the \<^verbatim>\<open>order\<close> of an object direction. For any other
  field with a string direction \<open>d\<close> the entry has one key, unless that key is
  \<^verbatim>\<open>__proto__\<close>; its value has the order \<open>d\<close> and agrees with the default sort options on
  every other key that an object does not inherit, except that, when the index pattern
  knows the field as sortable with a type other than \<^verbatim>\<open>conflict\<close>, \<^verbatim>\<open>unmapped_type\<close> is
  the field's type under the field's name, or the type of the alternative sorting field
  under the alternative field's name. The keys of the default sort options are
  distinct, as those of an object are.
\<close>

theorem normalizeSortRequest_entries:
  assumes "distinct (map fst defaultSortOptions)"
  shows "length (normalizeSortRequest defaultSortOptions alt sortObject indexPattern)
           = length (concatArr sortObject)
    \<and> (\<forall>i < length (concatArr sortObject).
         (let s = concatArr sortObject ! i;
              r = normalizeSortRequest defaultSortOptions alt sortObject indexPattern ! i;
              sortField = firstKey s;
              sortValue = getProp s sortField
          in case byName indexPattern sortField of
               Some f \<Rightarrow>
                 if scripted f \<and> sortable f
                 then \<exists>dir. r = [(''_script'', JObj [(''script'', script f),
                                                      (''type'', fieldType f), (''order'', dir)])]
                        \<and> (\<forall>d. sortValue = JStr d \<longrightarrow> dir = JStr d)
                        \<and> (\<forall>ob. sortValue = JObj ob \<and> truthy (getProp ob ''order'')
                               \<longrightarrow> dir = getProp ob ''order'')
                 else \<forall>d. sortValue = JStr d \<longrightarrow>
                        (\<exists>key v. (key \<noteq> ''__proto__'' \<longrightarrow> r = [(key, JObj v)])
                           \<and> getProp v ''order'' = JStr d
                           \<and> (if sortable f \<and> truthy (fieldType f)
                                  \<and> fieldType f \<noteq> JStr ''conflict''
                               then (key, getProp v ''unmapped_type'') =
                                      (case alt f of Some a \<Rightarrow> a
                                       | None \<Rightarrow> (sortField, fieldType f))
                                    \<and> (\<forall>k. k \<notin> set objectPrototypeKeys \<and> k \<noteq> ''order''
                                             \<and> k \<noteq> ''unmapped_type''
                                           \<longrightarrow> getProp v k = getProp defaultSortOptions k)
                               else key = sortField
                                    \<and> (\<forall>k. k \<notin> set objectPrototypeKeys \<and> k \<noteq> ''order''
                                           \<longrightarrow> getProp v k = getProp defaultSortOptions k)))
             | None \<Rightarrow>
                 \<forall>d. sortValue = JStr d \<longrightarrow>
                   (\<exists>v. (sortField \<noteq> ''__proto__'' \<longrightarrow> r = [(sortField, JObj v)])
                      \<and> getProp v ''order'' = JStr d
                      \<and> (\<forall>k. k \<notin> set objectPrototypeKeys \<and> k \<noteq> ''order''
                             \<longrightarrow> getProp v k = getProp defaultSortOptions k))))"
  using normalize_entry [OF assms]
  by (simp add: normalizeSortRequest_def Let_def)

theorem normalizeSortRequest_entries_witness:
  "distinct (map fst [(''unmapped_type'', JStr ''boolean'')])
   \<and> length (normalizeSortRequest [(''unmapped_type'', JStr ''boolean'')]
        (\<lambda>f. if fieldType f = JStr ''string'' then Some (''title.raw'', JStr ''keyword'') else None)
        (Many [[(''title'', JStr ''desc'')], [(''calc'', JStr ''asc'')], [(''other'', JStr ''asc'')]])
        \<lparr>byName = [''title'' \<mapsto> \<lparr>fieldType = JStr ''string'', scripted = False,
                                   sortable = True, script = JUndefined\<rparr>,
                    ''calc'' \<mapsto> \<lparr>fieldType = JStr ''number'', scripted = True,
                                  sortable = True, script = JStr ''doc.x''\<rparr>]\<rparr>) = 3
   \<and> normalizeSortRequest [(''unmapped_type'', JStr ''boolean'')]
        (\<lambda>f. if fieldType f = JStr ''string'' then Some (''title.raw'', JStr ''keyword'') else None)
        (Many [[(''title'', JStr ''desc'')], [(''calc'', JStr ''asc'')], [(''other'', JStr ''asc'')]])
        \<lparr>byName = [''title'' \<mapsto> \<lparr>fieldType = JStr ''string'', scripted = False,
                                   sortable = True, script = JUndefined\<rparr>,
                    ''calc'' \<mapsto> \<lparr>fieldType = JStr ''number'', scripted = True,
                                  sortable = True, script = JStr ''doc.x''\<rparr>]\<rparr>
     = [[(''title.raw'', JObj [(''order'', JStr ''desc''), (''unmapped_type'', JStr ''keyword'')])],
        [(''_script'', JObj [(''script'', JStr ''doc.x''), (''type'', JStr ''number''),
                             (''order'', JStr ''asc'')])],
        [(''other'', JObj [(''order'', JStr ''asc''), (''unmapped_type'', JStr ''boolean'')])]]"
proof -
  have d: "distinct (map fst [(''unmapped_type'', JStr ''boolean'')])"
    by simp
  have len: "length (normalizeSortRequest [(''unmapped_type'', JStr ''boolean'')]
        (\<lambda>f. if fieldType f = JStr ''string'' then Some (''title.raw'', JStr ''keyword'') else None)
        (Many [[(''title'', JStr ''desc'')], [(''calc'', JStr ''asc'')], [(''other'', JStr ''asc'')]])
        \<lparr>byName = [''title'' \<mapsto> \<lparr>fieldType = JStr ''string'', scripted = False,
                                   sortable = True, script = JUndefined\<rparr>,
                    ''calc'' \<mapsto> \<lparr>fieldType = JStr ''number'', scripted = True,
                                  sortable = True, script = JStr ''doc.x''\<rparr>]\<rparr>) = 3"
    using normalizeSortRequest_entries [OF d, THEN conjunct1] by simp
  show ?thesis
    using d len by (simp add: sort_eval)
qed

section \<open>The kibana index route\<close>

text \<open>
  C9. A PUT, POST or DELETE request whose path, trimmed of surrounding whitespace and
  of trailing slashes, equals the path of the kibana index is answered with the
  method-not-allowed error (status 405) by the first prerequisite, and is not
  forwarded to the proxy handler.
\<close>

theorem noDirectIndex_blocks_kibana_index:
  assumes "reqMethod req \<in> {PUT, POST, DELETE}"
    and "trimRight (trim (path req)) ''/'' = createPath ''/elasticsearch'' kibanaIndex"
  shows "serve (kibanaIndexRoute createPath kibanaIndex) req =
           Some (Rejected (BoomError 405
             ''You cannot modify the primary kibana index through this interface.''))
         \<and> serve (kibanaIndexRoute createPath kibanaIndex) req \<noteq> Some (Forwarded req)"
  using assms
  by (auto simp: serve_def kibanaIndexRoute_def noDirectIndex_def methodNotAllowed_def Let_def)

theorem noDirectIndex_blocks_kibana_index_witness:
  "reqMethod \<lparr>reqMethod = DELETE, path = '' /elasticsearch/.kibi// ''\<rparr> \<in> {PUT, POST, DELETE}
   \<and> trimRight (trim (path \<lparr>reqMethod = DELETE, path = '' /elasticsearch/.kibi// ''\<rparr>)) ''/''
       = (\<lambda>prefix p. prefix @ ''/'' @ p) ''/elasticsearch'' ''.kibi''
   \<and> serve (kibanaIndexRoute (\<lambda>prefix p. prefix @ ''/'' @ p) ''.kibi'')
        \<lparr>reqMethod = DELETE, path = '' /elasticsearch/.kibi// ''\<rparr>
       = Some (Rejected (BoomError 405
           ''You cannot modify the primary kibana index through this interface.''))"
proof -
  have m: "reqMethod \<lparr>reqMethod = DELETE, path = '' /elasticsearch/.kibi// ''\<rparr>
             \<in> {PUT, POST, DELETE}"
    by simp
  have p: "trimRight (trim (path \<lparr>reqMethod = DELETE, path = '' /elasticsearch/.kibi// ''\<rparr>)) ''/''
       = (\<lambda>prefix p. prefix @ ''/'' @ p) ''/elasticsearch'' ''.kibi''"
    by (simp add: trimRight_def trim_def trimRightWith_def trimLeftWith_def isSpace_def)
  from noDirectIndex_blocks_kibana_index
         [of "\<lparr>reqMethod = DELETE, path = '' /elasticsearch/.kibi// ''\<rparr>"
             "\<lambda>prefix p. prefix @ ''/'' @ p" "''.kibi''"] m p
  show ?thesis
    by blast
qed

section \<open>The query executor\<close>

text \<open>
  C8. When a call of \<^verbatim>\<open>fetchResults\<close> executes the backend and the execution fails, the
  call ends in an ExecutionError that carries the identity of the backend and the
  cause, and the cache is as it was before the call: nothing is stored for the
  computed key.
\<close>

theorem fetchResults_backend_failure:
  assumes run: "fetchResults be qs ctx forceRefresh variableBinding st = (res, st')"
    and invoked: "backendCalls st' \<noteq> backendCalls st"
    and failed: "executeRaw be (populateParameters be (resultQuery qs) ctx) = Inl cause"
  shows "res = Inl (ExecutionError (datasourceId (datasource qs)) cause)
         \<and> cache st' = cache st"
  using assms
  by (auto simp: fetchResults_def ensureInitialized_def Let_def
           split: if_splits option.splits sum.splits)

theorem fetchResults_backend_failure_witness:
  "fetchResults (stubBackend (\<lambda>q. Inl ''ER_NO_SUCH_TABLE'')) testQuery testContext False
       ''variableX'' coldState
     = (Inl (ExecutionError ''mysql'' ''ER_NO_SUCH_TABLE''),
        coldState\<lparr> initialized := True,
                   keyCalls := [(''localhostmydb'', ''select * from x'', False, ''variableX'',
                                 ''fred'')],
                   backendCalls := [''select * from x''] \<rparr>)
   \<and> backendCalls (coldState\<lparr> initialized := True,
                   keyCalls := [(''localhostmydb'', ''select * from x'', False, ''variableX'',
                                 ''fred'')],
                   backendCalls := [''select * from x''] \<rparr>) \<noteq> backendCalls coldState
   \<and> executeRaw (stubBackend (\<lambda>q. Inl ''ER_NO_SUCH_TABLE''))
        (populateParameters (stubBackend (\<lambda>q. Inl ''ER_NO_SUCH_TABLE''))
           (resultQuery testQuery) testContext) = Inl ''ER_NO_SUCH_TABLE''
   \<and> cache (coldState\<lparr> initialized := True,
                   keyCalls := [(''localhostmydb'', ''select * from x'', False, ''variableX'',
                                 ''fred'')],
                   backendCalls := [''select * from x''] \<rparr>) = cache coldState"
proof -
  have run: "fetchResults (stubBackend (\<lambda>q. Inl ''ER_NO_SUCH_TABLE'')) testQuery testContext
       False ''variableX'' coldState
     = (Inl (ExecutionError ''mysql'' ''ER_NO_SUCH_TABLE''),
        coldState\<lparr> initialized := True,
                   keyCalls := [(''localhostmydb'', ''select * from x'', False, ''variableX'',
                                 ''fred'')],
                   backendCalls := [''select * from x''] \<rparr>)"
    by (simp add: fetchResults_def activated_def ensureInitialized_def stubBackend_def
          testQuery_def testContext_def coldState_def Let_def)
  have invoked: "backendCalls (coldState\<lparr> initialized := True,
                   keyCalls := [(''localhostmydb'', ''select * from x'', False, ''variableX'',
                                 ''fred'')],
                   backendCalls := [''select * from x''] \<rparr>) \<noteq> backendCalls coldState"
    by (simp add: coldState_def)
  have failed: "executeRaw (stubBackend (\<lambda>q. Inl ''ER_NO_SUCH_TABLE''))
        (populateParameters (stubBackend (\<lambda>q. Inl ''ER_NO_SUCH_TABLE''))
           (resultQuery testQuery) testContext) = Inl ''ER_NO_SUCH_TABLE''"
    by (simp add: stubBackend_def)
  from fetchResults_backend_failure [OF run invoked failed] run invoked failed
  show ?thesis
    by simp
qed

section \<open>The join planner\<close>

text \<open>
  A run that reaches an empty step: the executors of \<open>earlier\<close> yield non-empty ResultSets
  one after the other (\<open>ios\<close> lists the bindings and the state each of them starts
  from, and the last entry is what the executor of \<open>q\<close> starts from), and the executor
  of \<open>q\<close> yields an empty one.
\<close>

lemma sequenceJoin_until_empty:
  assumes "length ios = Suc (length earlier)"
    and "ios ! 0 = (prev, st)"
    and "\<forall>k < length earlier.
           exec (earlier ! k) (fst (ios ! k)) (snd (ios ! k))
             = (Inr (fst (ios ! Suc k)), snd (ios ! Suc k))
           \<and> bindings (fst (ios ! Suc k)) \<noteq> []"
    and "exec q (fst (ios ! length earlier)) (snd (ios ! length earlier)) = (Inr rs, st')"
    and "bindings rs = []"
  shows "sequenceJoin exec (earlier @ q # later) prev st
           = (Inr emptyResultSet,
              zip earlier (map (\<lambda>io. Inr (fst io)) (tl ios)) @ [(q, Inr rs)],
              st')"
  using assms
proof (induction earlier arbitrary: ios prev st)
  case Nil
  then show ?case by simp
next
  case (Cons p earlier)
  from Cons.prems(1) obtain io0 io1 rest where ios: "ios = io0 # io1 # rest"
    by (cases ios; cases "tl ios") auto
  from Cons.prems(2) ios have io0: "io0 = (prev, st)"
    by simp
  from Cons.prems(3) [rule_format, of 0] ios io0
  have first: "exec p prev st = (Inr (fst io1), snd io1)" "bindings (fst io1) \<noteq> []"
    by auto
  have len: "length (io1 # rest) = Suc (length earlier)"
    using Cons.prems(1) ios by simp
  have start: "(io1 # rest) ! 0 = (fst io1, snd io1)"
    by simp
  have steps: "\<forall>k < length earlier.
           exec (earlier ! k) (fst ((io1 # rest) ! k)) (snd ((io1 # rest) ! k))
             = (Inr (fst ((io1 # rest) ! Suc k)), snd ((io1 # rest) ! Suc k))
           \<and> bindings (fst ((io1 # rest) ! Suc k)) \<noteq> []"
  proof (intro allI impI)
    fix k assume "k < length earlier"
    then have "Suc k < length (p # earlier)" by simp
    from Cons.prems(3) [rule_format, OF this] ios
    show "exec (earlier ! k) (fst ((io1 # rest) ! k)) (snd ((io1 # rest) ! k))
             = (Inr (fst ((io1 # rest) ! Suc k)), snd ((io1 # rest) ! Suc k))
           \<and> bindings (fst ((io1 # rest) ! Suc k)) \<noteq> []"
      by simp
  qed
  have last: "exec q (fst ((io1 # rest) ! length earlier)) (snd ((io1 # rest) ! length earlier))
                = (Inr rs, st')"
    using Cons.prems(4) ios by simp
  from Cons.IH [OF len start steps last Cons.prems(5)]
  have "sequenceJoin exec (earlier @ q # later) (fst io1) (snd io1)
          = (Inr emptyResultSet,
             zip earlier (map (\<lambda>io. Inr (fst io)) rest) @ [(q, Inr rs)],
             st')"
    by simp
  with first ios show ?case
    by simp
qed

text \<open>
  C5. In a sequence-mode join, when the executors of the QuerySpecs \<open>earlier\<close> than \<open>q\<close>
  have yielded non-empty ResultSets and the executor of \<open>q\<close> yields an empty one, the planner
  returns the empty result, its trace ends with \<open>q\<close>, and its final state is the state
  the executor of \<open>q\<close> left: whatever QuerySpecs \<open>later\<close> follow \<open>q\<close> in the relation, the
  run is the run of the relation that ends with \<open>q\<close>, so no executor of a later
  QuerySpec is invoked.
\<close>

theorem sequenceJoin_short_circuit:
  assumes "length ios = Suc (length earlier)"
    and "ios ! 0 = (prev, st)"
    and "\<forall>k < length earlier.
           exec (earlier ! k) (fst (ios ! k)) (snd (ios ! k))
             = (Inr (fst (ios ! Suc k)), snd (ios ! Suc k))
           \<and> bindings (fst (ios ! Suc k)) \<noteq> []"
    and "exec q (fst (ios ! length earlier)) (snd (ios ! length earlier)) = (Inr rs, st')"
    and "bindings rs = []"
  shows "sequenceJoin exec (earlier @ q # later) prev st
           = (Inr emptyResultSet,
              zip earlier (map (\<lambda>io. Inr (fst io)) (tl ios)) @ [(q, Inr rs)],
              st')
         \<and> sequenceJoin exec (earlier @ q # later) prev st = sequenceJoin exec (earlier @ [q]) prev st"
  using sequenceJoin_until_empty [OF assms, of later] sequenceJoin_until_empty [OF assms, of "[]"]
  by simp

theorem sequenceJoin_short_circuit_witness:
  "logExec testQuery emptyResultSet []
     = (Inr \<lparr>bindings = [[(''id'', ''1'')]]\<rparr>, [''select * from x''])
   \<and> bindings \<lparr>bindings = [[(''id'', ''1'')]]\<rparr> \<noteq> []
   \<and> logExec (testQuery\<lparr>resultQuery := ''select none''\<rparr>) \<lparr>bindings = [[(''id'', ''1'')]]\<rparr>
        [''select * from x'']
     = (Inr emptyResultSet, [''select * from x'', ''select none''])
   \<and> bindings emptyResultSet = []
   \<and> sequenceJoin logExec
        [testQuery, testQuery\<lparr>resultQuery := ''select none''\<rparr>,
         testQuery\<lparr>resultQuery := ''select later''\<rparr>]
        emptyResultSet []
     = (Inr emptyResultSet,
        [(testQuery, Inr \<lparr>bindings = [[(''id'', ''1'')]]\<rparr>),
         (testQuery\<lparr>resultQuery := ''select none''\<rparr>, Inr emptyResultSet)],
        [''select * from x'', ''select none''])"
proof -
  let ?ios = "[(emptyResultSet, []),
               (\<lparr>bindings = [[(''id'', ''1'')]]\<rparr>, [''select * from x''])]"
  have e1: "logExec testQuery emptyResultSet []
     = (Inr \<lparr>bindings = [[(''id'', ''1'')]]\<rparr>, [''select * from x''])"
    by (simp add: logExec_def testQuery_def)
  have n1: "bindings \<lparr>bindings = [[(''id'', ''1'')]]\<rparr> \<noteq> []"
    by simp
  have e2: "logExec (testQuery\<lparr>resultQuery := ''select none''\<rparr>)
        \<lparr>bindings = [[(''id'', ''1'')]]\<rparr> [''select * from x'']
     = (Inr emptyResultSet, [''select * from x'', ''select none''])"
    by (simp add: logExec_def)
  have n2: "bindings emptyResultSet = []"
    by (simp add: emptyResultSet_def)
  have len: "length ?ios = Suc (length [testQuery])"
    by simp
  have start: "?ios ! 0 = (emptyResultSet, [])"
    by simp
  have steps: "\<forall>k < length [testQuery].
           logExec ([testQuery] ! k) (fst (?ios ! k)) (snd (?ios ! k))
             = (Inr (fst (?ios ! Suc k)), snd (?ios ! Suc k))
           \<and> bindings (fst (?ios ! Suc k)) \<noteq> []"
    using e1 by simp
  have last: "logExec (testQuery\<lparr>resultQuery := ''select none''\<rparr>)
        (fst (?ios ! length [testQuery])) (snd (?ios ! length [testQuery]))
     = (Inr emptyResultSet, [''select * from x'', ''select none''])"
    using e2 by simp
  from sequenceJoin_short_circuit [OF len start steps last n2,
         of "[testQuery\<lparr>resultQuery := ''select later''\<rparr>]", THEN conjunct1]
  have "sequenceJoin logExec
        [testQuery, testQuery\<lparr>resultQuery := ''select none''\<rparr>,
         testQuery\<lparr>resultQuery := ''select later''\<rparr>]
        emptyResultSet []
     = (Inr emptyResultSet,
        [(testQuery, Inr \<lparr>bindings = [[(''id'', ''1'')]]\<rparr>),
         (testQuery\<lparr>resultQuery := ''select none''\<rparr>, Inr emptyResultSet)],
        [''select * from x'', ''select none''])"
    by simp
  with e1 n1 e2 n2 show ?thesis
    by blast
qed

end
